theory Spec2Isabelle
  imports Main "HOL-Library.Sublist"
begin

section \<open>The script runner of debugger.py\<close>

text \<open>
  The program is one \<^verbatim>\<open>try\<close> statement:
  \<^verbatim>\<open>
  try:
      exec(open("test.py").read())
  except Exception as e:
      error_message = str(e)
      print("Error detected:")
      print(error_message)
      if "not defined" in error_message: ...
      elif "syntax" in error_message.lower(): ...
      else: ...
  \<close>
  A Python \<^verbatim>\<open>str\<close> is modelled by its UTF-8 bytes, a \<^typ>\<open>string\<close>. Both needles of
  the program are ASCII, and no byte of a multi-byte UTF-8 sequence is an ASCII byte, so
  a needle occurs in the bytes exactly where it occurs in the code points.
\<close>

subsection \<open>Strings: \<^verbatim>\<open>in\<close> and \<^verbatim>\<open>lower\<close>\<close>

fun startswith :: "string \<Rightarrow> string \<Rightarrow> bool" where
  "startswith hay [] = True"
| "startswith [] (n # ns) = False"
| "startswith (h # hs) (n # ns) = (h = n \<and> startswith hs ns)"

text \<open>\<^verbatim>\<open>needle in hay\<close> on strings: the needle occurs at some position of the haystack.\<close>

fun py_in :: "string \<Rightarrow> string \<Rightarrow> bool" where
  "py_in needle [] = (needle = [])"
| "py_in needle (c # cs) = (startswith (c # cs) needle \<or> py_in needle cs)"

text \<open>
  \<^verbatim>\<open>str.lower()\<close>: each of the letters \<^verbatim>\<open>A\<close> to \<^verbatim>\<open>Z\<close> moves to its small letter and
  every other byte is kept. Python also lowers letters outside ASCII, into code points
  outside ASCII, except for U+0130 and U+212A, whose lower case holds \<^verbatim>\<open>i\<close> and \<^verbatim>\<open>k\<close>:
  neither is a letter of \<^verbatim>\<open>syntax\<close>, so the test the program makes on the lowered
  message is the same on this model.
\<close>

definition lower_char :: "char \<Rightarrow> char" where
  "lower_char c =
     (case map_of (zip ''ABCDEFGHIJKLMNOPQRSTUVWXYZ'' ''abcdefghijklmnopqrstuvwxyz'') c of
        Some l \<Rightarrow> l
      | None \<Rightarrow> c)"

definition lower_py :: "string \<Rightarrow> string" where
  "lower_py s = map lower_char s"

subsection \<open>The console\<close>

definition NL :: char where
  "NL = CHR 0x0A"

text \<open>\<^verbatim>\<open>print(s)\<close> appends \<^verbatim>\<open>s\<close> and a newline to what standard output holds.\<close>

definition print_py :: "string \<Rightarrow> string \<Rightarrow> string" where
  "print_py s out = out @ s @ [NL]"

subsection \<open>Exceptions\<close>

text \<open>
  The class of a raised object. \<open>Exception_class name\<close> is \<^verbatim>\<open>Exception\<close> or any class
  derived from it (\<^verbatim>\<open>NameError\<close>, \<^verbatim>\<open>SyntaxError\<close>, \<^verbatim>\<open>FileNotFoundError\<close>, a class of the
  script); the other four derive from \<^verbatim>\<open>BaseException\<close> only.
\<close>

datatype exc_class =
    SystemExit
  | KeyboardInterrupt
  | GeneratorExit
  | Other_BaseException string
  | Exception_class string

text \<open>The test of the clause \<^verbatim>\<open>except Exception\<close>.\<close>

fun isinstance_Exception :: "exc_class \<Rightarrow> bool" where
  "isinstance_Exception (Exception_class name) = True"
| "isinstance_Exception SystemExit = False"
| "isinstance_Exception KeyboardInterrupt = False"
| "isinstance_Exception GeneratorExit = False"
| "isinstance_Exception (Other_BaseException name) = False"

text \<open>
  A raised exception: its class and its text, which is what the built-in \<^verbatim>\<open>str\<close> gives
  for it.
\<close>

record py_exception =
  cls :: exc_class
  message :: string

subsection \<open>What the names of the handler do\<close>

text \<open>
  \<^verbatim>\<open>exec\<close> is called with no namespace, so the script runs in the globals of the
  program and in its process. When the handler runs, \<^verbatim>\<open>Exception\<close>, \<^verbatim>\<open>str\<close> and \<^verbatim>\<open>print\<close>
  are looked up there and do what the script has left them to do: it may have bound the
  names to other objects, replaced \<^verbatim>\<open>sys.stdout\<close>, or raised an object whose class has a
  \<^verbatim>\<open>__str__\<close> of its own. A call takes what standard output holds and gives what it holds
  afterwards, with the exception the call raised or the value it returned.
  \<^item> \<open>match_Exception e\<close>: the clause \<^verbatim>\<open>except Exception\<close> tried on \<open>e\<close>: it matches or
    not, or raises (the name is bound to something that is not an exception class).
  \<^item> \<open>call_str e\<close>: the call \<^verbatim>\<open>str(e)\<close>.
  \<^item> \<open>call_print s\<close>: the call \<^verbatim>\<open>print(s)\<close>.
\<close>

record calls =
  match_Exception :: "py_exception \<Rightarrow> py_exception + bool"
  call_str :: "py_exception \<Rightarrow> string \<Rightarrow> string \<times> (py_exception + string)"
  call_print :: "string \<Rightarrow> string \<Rightarrow> string \<times> py_exception option"

text \<open>
  The built-ins. \<^verbatim>\<open>str(e)\<close> returns the text of \<open>e\<close>, a plain \<^verbatim>\<open>str\<close>, and writes nothing;
  the clause matches the instances of \<^verbatim>\<open>Exception\<close>. The console is given by the texts
  beyond ASCII that its encoding takes; ASCII text is taken by every console. For a text the console cannot encode, \<^verbatim>\<open>print\<close>
  raises \<^verbatim>\<open>UnicodeEncodeError\<close> and writes nothing of it (the text of that error, which
  names the codec and the position, is cut to the part common to all codecs).
\<close>

definition is_ascii :: "string \<Rightarrow> bool" where
  "is_ascii s = list_all (\<lambda>c. \<not> digit7 c) s"

definition accepts :: "(string \<Rightarrow> bool) \<Rightarrow> string \<Rightarrow> bool" where
  "accepts enc s = (is_ascii s \<or> enc s)"

definition encode_error :: py_exception where
  "encode_error =
     \<lparr>cls = Exception_class ''UnicodeEncodeError'', message = ''codec can't encode characters''\<rparr>"

definition builtin_print :: "(string \<Rightarrow> bool) \<Rightarrow> string \<Rightarrow> string \<Rightarrow> string \<times> py_exception option" where
  "builtin_print enc s out =
     (if accepts enc s then (print_py s out, None) else (out, Some encode_error))"

definition builtin_str :: "py_exception \<Rightarrow> string \<Rightarrow> string \<times> (py_exception + string)" where
  "builtin_str e out = (out, Inr (message e))"

definition builtin_Exception :: "py_exception \<Rightarrow> py_exception + bool" where
  "builtin_Exception e = Inr (isinstance_Exception (cls e))"

definition builtin_calls :: "(string \<Rightarrow> bool) \<Rightarrow> calls" where
  "builtin_calls enc =
     \<lparr>match_Exception = builtin_Exception, call_str = builtin_str,
      call_print = builtin_print enc\<rparr>"

subsection \<open>The body of the \<^verbatim>\<open>try\<close>\<close>

text \<open>
  How the body ends: it returns, it raises, or the call of \<^verbatim>\<open>exec\<close> never comes back to
  the program (the script runs forever, or ends the process itself with \<^verbatim>\<open>os._exit\<close>).
\<close>

datatype outcome = Completed | Raised py_exception | No_return

text \<open>
  A run of the body: what it wrote to standard output, what it left the names of the
  handler to do, and how it ended.
\<close>

record script_run =
  written :: string
  left :: calls
  result :: outcome

type_synonym files = "string \<rightharpoonup> string"

text \<open>
  The text of the error \<^verbatim>\<open>open\<close> raises for a path that does not exist, as CPython
  builds it: \<^verbatim>\<open>[Errno 2] No such file or directory: 'test.py'\<close>.
\<close>

definition no_such_file :: "string \<Rightarrow> py_exception" where
  "no_such_file path =
     \<lparr>cls = Exception_class ''FileNotFoundError'',
      message = ''[Errno 2] No such file or directory: '' @ [CHR 0x27] @ path @ [CHR 0x27]\<rparr>"

definition open_read :: "files \<Rightarrow> string \<Rightarrow> py_exception + string" where
  "open_read fs path = (case fs path of None \<Rightarrow> Inl (no_such_file path) | Some src \<Rightarrow> Inr src)"

text \<open>
  \<^verbatim>\<open>exec(open("test.py").read())\<close>. What a script does is not code of this program:
  \<open>exec_py\<close> gives, for the names as the program starts with them and the text of the
  script, the run of that script. When \<^verbatim>\<open>open\<close> fails no script has run: nothing is
  written and the names are as they were.
\<close>

definition try_body :: "calls \<Rightarrow> (calls \<Rightarrow> string \<Rightarrow> script_run) \<Rightarrow> files \<Rightarrow> script_run" where
  "try_body g0 exec_py fs =
     (case open_read fs ''test.py'' of
        Inl e \<Rightarrow> \<lparr>written = [], left = g0, result = Raised e\<rparr>
      | Inr src \<Rightarrow> exec_py g0 src)"

subsection \<open>The handler\<close>

definition handler :: "string \<Rightarrow> string \<Rightarrow> string" where
  "handler error_message out0 =
     (let out1 = print_py ''Error detected:'' out0;
          out2 = print_py error_message out1
      in if py_in ''not defined'' error_message then
           print_py ''You are using a variable before assigning a value.''
             (print_py (NL # ''Explanation:'') out2)
         else if py_in ''syntax'' (lower_py error_message) then
           print_py ''There is a syntax mistake. Check brackets or colons.''
             (print_py (NL # ''Explanation:'') out2)
         else
           print_py ''An error occurred. Please check your code.''
             (print_py (NL # ''Explanation:'') out2))"

text \<open>
  \<open>handler\<close> is what the block writes when each \<^verbatim>\<open>print\<close> writes its line. The block as
  it runs calls the names through \<open>calls\<close>, in the order of the source, and stops at the
  first call that raises.
\<close>

definition then_do ::
  "string \<times> py_exception option \<Rightarrow> (string \<Rightarrow> string \<times> py_exception option) \<Rightarrow>
   string \<times> py_exception option" where
  "then_do r f = (case r of (out, None) \<Rightarrow> f out | (out, Some x) \<Rightarrow> (out, Some x))"

definition except_block :: "calls \<Rightarrow> py_exception \<Rightarrow> string \<Rightarrow> string \<times> py_exception option" where
  "except_block g e out0 =
     (case call_str g e out0 of
        (out1, Inl x) \<Rightarrow> (out1, Some x)
      | (out1, Inr error_message) \<Rightarrow>
          then_do (then_do (call_print g ''Error detected:'' out1) (call_print g error_message))
            (\<lambda>out3.
               if py_in ''not defined'' error_message then
                 then_do (call_print g (NL # ''Explanation:'') out3)
                   (call_print g ''You are using a variable before assigning a value.'')
               else if py_in ''syntax'' (lower_py error_message) then
                 then_do (call_print g (NL # ''Explanation:'') out3)
                   (call_print g ''There is a syntax mistake. Check brackets or colons.'')
               else
                 then_do (call_print g (NL # ''Explanation:'') out3)
                   (call_print g ''An error occurred. Please check your code.'')))"

subsection \<open>The program\<close>

text \<open>
  How a run ends: the \<^verbatim>\<open>try\<close> statement is left normally, the end of the file is
  reached and the interpreter exits with code 0; or an exception leaves the \<^verbatim>\<open>try\<close>
  statement and reaches the interpreter, which prints its stack trace and exits with
  another code; or the body never comes back and the program ends nothing itself.
\<close>

datatype ending = Exit_zero | Propagated py_exception | Ended_by_script

text \<open>
  What standard output holds when the last statement of the program has run, and how the
  run ended.
\<close>

record run =
  stdout :: string
  ending :: ending

definition on_run :: "script_run \<Rightarrow> run" where
  "on_run r =
     (case result r of
        Completed \<Rightarrow> \<lparr>stdout = written r, ending = Exit_zero\<rparr>
      | No_return \<Rightarrow> \<lparr>stdout = written r, ending = Ended_by_script\<rparr>
      | Raised e \<Rightarrow>
          (case match_Exception (left r) e of
             Inl x \<Rightarrow> \<lparr>stdout = written r, ending = Propagated x\<rparr>
           | Inr False \<Rightarrow> \<lparr>stdout = written r, ending = Propagated e\<rparr>
           | Inr True \<Rightarrow>
               (case except_block (left r) e (written r) of
                  (out, None) \<Rightarrow> \<lparr>stdout = out, ending = Exit_zero\<rparr>
                | (out, Some x) \<Rightarrow> \<lparr>stdout = out, ending = Propagated x\<rparr>)))"

text \<open>
  The program on a console \<open>enc\<close>: it starts with the built-ins, runs the body and handles
  what the body raised.
\<close>

definition debugger :: "(string \<Rightarrow> bool) \<Rightarrow> (calls \<Rightarrow> string \<Rightarrow> script_run) \<Rightarrow> files \<Rightarrow> run" where
  "debugger enc exec_py fs = on_run (try_body (builtin_calls enc) exec_py fs)"

subsection \<open>The vocabulary of the specification\<close>

datatype branch = Undefined_variable | Syntax_mistake | Generic

fun explanation :: "branch \<Rightarrow> string" where
  "explanation Undefined_variable = ''You are using a variable before assigning a value.''"
| "explanation Syntax_mistake = ''There is a syntax mistake. Check brackets or colons.''"
| "explanation Generic = ''An error occurred. Please check your code.''"

text \<open>
  The shape of a report: the header line, the raw message, a blank line, the line
  \<^verbatim>\<open>Explanation:\<close> and one sentence.
\<close>

definition report :: "string \<Rightarrow> string \<Rightarrow> string" where
  "report msg sentence =
     ''Error detected:'' @ [NL] @ msg @ [NL] @ [NL] @ ''Explanation:'' @ [NL] @ sentence @ [NL]"

subsection \<open>Scripts and consoles used at concrete inputs\<close>


definition completing :: "string \<Rightarrow> calls \<Rightarrow> string \<Rightarrow> script_run" where
  "completing w g0 src = \<lparr>written = w, left = g0, result = Completed\<rparr>"






definition ascii_only :: "string \<Rightarrow> bool" where
  "ascii_only s = False"

section \<open>Properties\<close>

subsection \<open>The string operations\<close>

lemma startswith_prefix: "startswith hay needle \<longleftrightarrow> prefix needle hay"
  by (induction hay needle rule: startswith.induct) auto

text \<open>\<open>py_in\<close> is the substring relation: the haystack is the needle between two strings.\<close>

lemma py_in_sublist: "py_in needle hay \<longleftrightarrow> (\<exists>pre suf. hay = pre @ needle @ suf)"
proof -
  have "py_in needle hay \<longleftrightarrow> sublist needle hay"
    by (induction hay) (simp_all add: startswith_prefix sublist_Cons_right)
  then show ?thesis
    by (simp add: sublist_def)
qed

subsection \<open>The three branches of the handler\<close>



lemma handler_generic:
  "\<not> py_in ''not defined'' msg \<Longrightarrow> \<not> py_in ''syntax'' (lower_py msg) \<Longrightarrow>
   handler msg out = out @ report msg (explanation Generic)"
  by (simp add: handler_def print_py_def report_def)




subsection \<open>The block under the built-ins\<close>

lemma accepts_fixed:
  "accepts enc ''Error detected:''"
  "accepts enc (NL # ''Explanation:'')"
  "accepts enc ''You are using a variable before assigning a value.''"
  "accepts enc ''There is a syntax mistake. Check brackets or colons.''"
  "accepts enc ''An error occurred. Please check your code.''"
  by (simp_all add: accepts_def is_ascii_def NL_def)

text \<open>
  With the names bound to the built-ins and a console that takes the message, the block
  writes what \<open>handler\<close> gives and raises nothing.
\<close>

lemma except_block_builtin:
  assumes "accepts enc (message e)"
  shows "except_block (builtin_calls enc) e out = (handler (message e) out, None)"
  using assms
  by (simp add: except_block_def builtin_calls_def builtin_str_def builtin_print_def
      then_do_def handler_def accepts_fixed)

lemma on_run_caught:
  assumes "isinstance_Exception (cls e)" and "accepts enc (message e)"
  shows "on_run \<lparr>written = w, left = builtin_calls enc, result = Raised e\<rparr> =
         \<lparr>stdout = handler (message e) w, ending = Exit_zero\<rparr>"
proof -
  have "match_Exception (builtin_calls enc) e = Inr True"
    using assms(1) by (simp add: builtin_calls_def builtin_Exception_def)
  then show ?thesis
    using assms(2) by (simp add: on_run_def except_block_builtin)
qed

lemma debugger_caught:
  assumes "try_body (builtin_calls enc) exec_py fs =
             \<lparr>written = w, left = builtin_calls enc, result = Raised e\<rparr>"
    and "isinstance_Exception (cls e)" and "accepts enc (message e)"
  shows "debugger enc exec_py fs = \<lparr>stdout = handler (message e) w, ending = Exit_zero\<rparr>"
  using assms by (simp add: debugger_def on_run_caught)


lemma try_body_missing:
  "fs ''test.py'' = None \<Longrightarrow>
   try_body g0 exec_py fs = \<lparr>written = [], left = g0, result = Raised (no_such_file ''test.py'')\<rparr>"
  by (simp add: try_body_def open_read_def)

section \<open>The claims\<close>







text \<open>
  C3. When \<^verbatim>\<open>test.py\<close> does not exist, the error of \<^verbatim>\<open>open\<close> is caught by the handler;
  its message holds neither \<^verbatim>\<open>not defined\<close> nor, lowered, \<^verbatim>\<open>syntax\<close>, and the program
  prints the report with the generic explanation and ends with exit code 0, on every
  console.
\<close>

theorem C3_missing_file_generic:
  assumes "fs ''test.py'' = None"
  shows "\<not> py_in ''not defined'' (message (no_such_file ''test.py'')) \<and>
         \<not> py_in ''syntax'' (lower_py (message (no_such_file ''test.py''))) \<and>
         debugger enc exec_py fs =
           \<lparr>stdout = report (message (no_such_file ''test.py'')) (explanation Generic),
            ending = Exit_zero\<rparr>"
proof -
  have nd: "\<not> py_in ''not defined'' (message (no_such_file ''test.py''))"
    by (simp add: no_such_file_def)
  have sy: "\<not> py_in ''syntax'' (lower_py (message (no_such_file ''test.py'')))"
    by (simp add: no_such_file_def lower_py_def lower_char_def)
  have inst: "isinstance_Exception (cls (no_such_file ''test.py''))"
    by (simp add: no_such_file_def)
  have acc: "accepts enc (message (no_such_file ''test.py''))"
    by (simp add: no_such_file_def accepts_def is_ascii_def)
  have "try_body (builtin_calls enc) exec_py fs =
      \<lparr>written = [], left = builtin_calls enc, result = Raised (no_such_file ''test.py'')\<rparr>"
    using assms by (rule try_body_missing)
  then have "debugger enc exec_py fs =
      \<lparr>stdout = handler (message (no_such_file ''test.py'')) [], ending = Exit_zero\<rparr>"
    using inst acc by (rule debugger_caught)
  with nd sy show ?thesis
    by (simp add: handler_generic)
qed

theorem C3_missing_file_generic_witness:
  "Map.empty ''test.py'' = (None :: string option) \<and>
   debugger ascii_only (completing []) Map.empty =
     \<lparr>stdout = report (''[Errno 2] No such file or directory: '' @ [CHR 0x27] @ ''test.py'' @ [CHR 0x27])
                 ''An error occurred. Please check your code.'',
      ending = Exit_zero\<rparr>"
proof -
  have h: "(Map.empty :: files) ''test.py'' = None"
    by simp
  from C3_missing_file_generic [OF h, of ascii_only "completing []"] show ?thesis
    by (simp add: no_such_file_def)
qed






















end
